theory Spec2Isabelle
  imports Main "HOL-Library.Word"
begin

section \<open>JavaScript strings\<close>

text \<open>
  A JavaScript string is a sequence of 16-bit code units. The regular expression of
  \<open>lookupHostedZone\<close> has no \<open>u\<close> flag, so it works on code units, and its \<open>.\<close>
  excludes the four line terminators, two of which lie outside Latin-1.
\<close>

type_synonym codeunit = "16 word"
type_synonym jsstring = "codeunit list"

definition lit :: "string \<Rightarrow> jsstring" where
  \<comment> \<open>an ASCII string literal of the source, as code units\<close>
  "lit s = map of_char s"

definition FULL_STOP :: codeunit where
  "FULL_STOP = 0x002E"

definition isLineTerminator :: "codeunit \<Rightarrow> bool" where
  \<comment> \<open>LF, CR, LINE SEPARATOR, PARAGRAPH SEPARATOR\<close>
  "isLineTerminator c \<longleftrightarrow> c = 0x000A \<or> c = 0x000D \<or> c = 0x2028 \<or> c = 0x2029"

section \<open>The regular expression \<^verbatim>\<open>/.*?\.(.*)/\<close> and \<^verbatim>\<open>replace\<close>\<close>

text \<open>
  \<^verbatim>\<open>.*?\.\<close> tried at the head of the input. The lazy star first tries to consume
  nothing, so a full stop at the head is taken by \<^verbatim>\<open>\.\<close>; what follows, \<^verbatim>\<open>(.*)\<close>,
  never fails, so that choice is never undone. Otherwise the star has to consume the
  head, which \<open>.\<close> refuses for a line terminator. The result is the input after the full
  stop.
\<close>

fun lazyAnyThenDot :: "jsstring \<Rightarrow> jsstring option" where
  "lazyAnyThenDot [] = None"
| "lazyAnyThenDot (c # cs) =
     (if c = FULL_STOP then Some cs
      else if isLineTerminator c then None
      else lazyAnyThenDot cs)"

text \<open>
  \<^verbatim>\<open>(.*)\<close> is greedy and last in the pattern: it takes every code unit up to the next
  line terminator or the end. The pair is the captured group and the input left over.
\<close>

definition greedyAny :: "jsstring \<Rightarrow> jsstring \<times> jsstring" where
  "greedyAny s =
     (takeWhile (\<lambda>c. \<not> isLineTerminator c) s, dropWhile (\<lambda>c. \<not> isLineTerminator c) s)"

text \<open>The whole pattern tried at one start position: group 1 and the input after the match.\<close>

definition regexMatchAt :: "jsstring \<Rightarrow> (jsstring \<times> jsstring) option" where
  "regexMatchAt s =
     (case lazyAnyThenDot s of
        None \<Rightarrow> None
      | Some r \<Rightarrow> Some (greedyAny r))"

text \<open>
  \<^verbatim>\<open>s.replace(/.*?\.(.*)/, "$1")\<close>: the pattern is not global, so the leftmost match alone
  is replaced, by its group 1; the code units before the match and after it are kept, and
  a string with no match is returned as it is.
\<close>

fun replaceWithGroup1 :: "jsstring \<Rightarrow> jsstring" where
  "replaceWithGroup1 [] =
     (case regexMatchAt [] of
        Some (g, rest) \<Rightarrow> g @ rest
      | None \<Rightarrow> [])"
| "replaceWithGroup1 (c # cs) =
     (case regexMatchAt (c # cs) of
        Some (g, rest) \<Rightarrow> g @ rest
      | None \<Rightarrow> c # replaceWithGroup1 cs)"

section \<open>Configuration and resource descriptors\<close>

record StaticWebsiteProps =
  domainName :: jsstring
  websiteDistPath :: "jsstring option"
  indexDocument :: "jsstring option"
  bucketName :: "jsstring option"
  webACLId :: "jsstring option"

text \<open>The enclosing scope: the stack's environment, as the tests set it up.\<close>

record Scope =
  account :: jsstring
  region :: jsstring

datatype RemovalPolicy = DESTROY | RETAIN | SNAPSHOT

record BlockPublicAccess =
  blockPublicAcls :: bool
  blockPublicPolicy :: bool
  ignorePublicAcls :: bool
  restrictPublicBuckets :: bool

definition BLOCK_ALL :: BlockPublicAccess where
  "BLOCK_ALL =
     \<lparr>blockPublicAcls = True, blockPublicPolicy = True,
      ignorePublicAcls = True, restrictPublicBuckets = True\<rparr>"

record Bucket =
  websiteIndexDocument :: jsstring
  bkt_bucketName :: jsstring
  removalPolicy :: RemovalPolicy
  blockPublicAccess :: BlockPublicAccess

datatype ISource = Source_asset jsstring | Source_bucket Bucket jsstring

datatype CacheControl =
  noCache | noTransform | mustRevalidate | setPublic | setPrivate | maxAge nat

record BucketDeployment =
  sources :: "ISource list"
  destinationBucket :: Bucket
  cacheControl :: "CacheControl list"

text \<open>
  The \<^verbatim>\<open>bucketName\<close> attribute of a bucket construct is a token that stands for the
  name of the deployed bucket, not the name passed to it; a template literal that
  interpolates it is kept as its fragments.
\<close>

datatype Fragment = Literal jsstring | Token_bucketName Bucket

record OriginAccessIdentity =
  comment :: "Fragment list"

text \<open>
  What \<^verbatim>\<open>grantRead\<close> adds: a policy on the bucket that lets the principal read it. The
  policy is a construct of the bucket's own, registered under the bucket.
\<close>

record BucketReadGrant =
  grant_bucket :: Bucket
  grantPrincipal :: OriginAccessIdentity

record HostedZoneProviderProps =
  hz_domainName :: jsstring

datatype IHostedZone = HostedZone_fromLookup HostedZoneProviderProps

record DnsValidatedCertificate =
  cert_domainName :: jsstring
  hostedZone :: IHostedZone
  cert_region :: jsstring

datatype CertificateRef = certificateArn DnsValidatedCertificate

datatype TimeUnit = Milliseconds | Seconds | Minutes | Hours | Days

record Duration =
  amount :: nat
  timeUnit :: TimeUnit

definition Duration_days :: "nat \<Rightarrow> Duration" where
  "Duration_days n = \<lparr>amount = n, timeUnit = Days\<rparr>"

definition Duration_minutes :: "nat \<Rightarrow> Duration" where
  "Duration_minutes n = \<lparr>amount = n, timeUnit = Minutes\<rparr>"

record S3OriginConfig =
  s3BucketSource :: Bucket
  originAccessIdentity :: OriginAccessIdentity

record Behavior =
  isDefaultBehavior :: bool
  defaultTtl :: Duration

record SourceConfiguration =
  s3OriginSource :: S3OriginConfig
  behaviors :: "Behavior list"

record AliasConfiguration =
  acmCertRef :: CertificateRef
  names :: "jsstring list"

record ErrorConfiguration =
  errorCode :: int
  errorCachingMinTtl :: int
  responseCode :: int
  responsePagePath :: jsstring

record CloudFrontWebDistribution =
  originConfigs :: "SourceConfiguration list"
  dist_webACLId :: "jsstring option"
  aliasConfiguration :: AliasConfiguration
  defaultRootObject :: jsstring
  errorConfigurations :: "ErrorConfiguration list"

datatype AliasTarget = CloudFrontTarget CloudFrontWebDistribution

datatype RecordTarget = fromAlias AliasTarget | fromValues "jsstring list"

datatype RecordType = A | AAAA | CNAME | MX | TXT

text \<open>\<^verbatim>\<open>ARecord\<close> is the record set whose type is fixed to \<open>A\<close>; the rest are its properties.\<close>

record ARecord =
  recordType :: RecordType
  target :: RecordTarget
  recordName :: jsstring
  ttl :: Duration
  zone :: IHostedZone

text \<open>
  Every \<^verbatim>\<open>new X(this, id, props)\<close> registers the new construct under \<open>this\<close>. The
  methods below take the constructs registered so far and return them extended;
  \<open>node_children\<close> are those registered under the website construct, and
  \<open>bucket_children\<close> those registered under its bucket.
\<close>

datatype Resource =
    RBucket Bucket
  | RBucketDeployment BucketDeployment
  | RHostedZone IHostedZone
  | RCertificate DnsValidatedCertificate
  | ROriginAccessIdentity OriginAccessIdentity
  | RBucketReadGrant BucketReadGrant
  | RDistribution CloudFrontWebDistribution
  | RARecord ARecord

type_synonym Children = "(jsstring \<times> Resource) list"

record StaticWebsite =
  bucket :: Bucket
  bucketDeployment :: "BucketDeployment option"
  distribution :: CloudFrontWebDistribution
  dnsRecord :: ARecord
  node_scope :: Scope
  node_id :: jsstring
  node_children :: Children
  bucket_children :: Children

section \<open>The methods of \<^verbatim>\<open>StaticWebsite\<close>\<close>

definition createBucket :: "Children \<Rightarrow> jsstring \<Rightarrow> jsstring \<Rightarrow> Bucket \<times> Children" where
  "createBucket this websiteIndexDocument' bucketName' =
     (let b = \<lparr>websiteIndexDocument = websiteIndexDocument',
               bkt_bucketName = bucketName',
               removalPolicy = DESTROY,
               blockPublicAccess = BLOCK_ALL\<rparr>
      in (b, this @ [(lit ''S3Bucket'', RBucket b)]))"

definition createBucketDeployment ::
  "Children \<Rightarrow> jsstring \<Rightarrow> Bucket \<Rightarrow> BucketDeployment \<times> Children" where
  "createBucketDeployment this websiteDistPath' destinationBucket' =
     (let d = \<lparr>sources = [Source_asset websiteDistPath'],
               destinationBucket = destinationBucket',
               cacheControl = [noCache]\<rparr>
      in (d, this @ [(lit ''BucketDeployment'', RBucketDeployment d)]))"

text \<open>
  \<^verbatim>\<open>createOriginAccessIdentity\<close> registers the identity under \<open>this\<close>, and its
  \<^verbatim>\<open>grantRead\<close> registers the policy under the bucket, whose constructs so far are
  the second argument.
\<close>

definition createOriginAccessIdentity ::
  "Children \<Rightarrow> Children \<Rightarrow> Bucket \<Rightarrow> OriginAccessIdentity \<times> Children \<times> Children" where
  "createOriginAccessIdentity this bucketNode destinationBucket' =
     (let originAccessIdentity' =
            \<lparr>comment = [Literal (lit ''OAI for ''), Token_bucketName destinationBucket']\<rparr>;
          this1 = this @ [(lit ''Oai'', ROriginAccessIdentity originAccessIdentity')];
          bucketNode1 = bucketNode @ [(lit ''Policy'',
                    RBucketReadGrant \<lparr>grant_bucket = destinationBucket',
                                      grantPrincipal = originAccessIdentity'\<rparr>)]
      in (originAccessIdentity', this1, bucketNode1))"

definition createCloudFrontWebDistribution ::
  "Children \<Rightarrow> Bucket \<Rightarrow> OriginAccessIdentity \<Rightarrow> CertificateRef \<Rightarrow> jsstring \<Rightarrow> jsstring \<Rightarrow>
   jsstring option \<Rightarrow> CloudFrontWebDistribution \<times> Children" where
  "createCloudFrontWebDistribution this destinationBucket' originAccessIdentity'
       certificatArn domainName' websiteIndexDocument' webACLId' =
     (let d = \<lparr>originConfigs =
                 [\<lparr>s3OriginSource =
                     \<lparr>s3BucketSource = destinationBucket',
                      originAccessIdentity = originAccessIdentity'\<rparr>,
                   behaviors =
                     [\<lparr>isDefaultBehavior = True, defaultTtl = Duration_days 60\<rparr>]\<rparr>],
               dist_webACLId = webACLId',
               aliasConfiguration = \<lparr>acmCertRef = certificatArn, names = [domainName']\<rparr>,
               defaultRootObject = websiteIndexDocument',
               errorConfigurations =
                 [\<lparr>errorCode = 404,
                   errorCachingMinTtl = 300,
                   responseCode = 200,
                   responsePagePath = lit ''/'' @ websiteIndexDocument'\<rparr>]\<rparr>
      in (d, this @ [(lit ''CloudfrontDistribution'', RDistribution d)]))"

definition createCertificate ::
  "Children \<Rightarrow> jsstring \<Rightarrow> IHostedZone \<Rightarrow> DnsValidatedCertificate \<times> Children" where
  "createCertificate this domainName' hostedZone' =
     (let c = \<lparr>cert_domainName = domainName',
               hostedZone = hostedZone',
               cert_region = lit ''us-east-1''\<rparr>
      in (c, this @ [(lit ''SslCertificate'', RCertificate c)]))"

definition hostedZoneDomainName :: "jsstring \<Rightarrow> jsstring" where
  "hostedZoneDomainName domainName' = replaceWithGroup1 domainName'"

definition lookupHostedZone :: "Children \<Rightarrow> jsstring \<Rightarrow> IHostedZone \<times> Children" where
  "lookupHostedZone this domainName' =
     (let z = HostedZone_fromLookup \<lparr>hz_domainName = hostedZoneDomainName domainName'\<rparr>
      in (z, this @ [(lit ''HostedZone'', RHostedZone z)]))"

definition createARecord ::
  "Children \<Rightarrow> IHostedZone \<Rightarrow> jsstring \<Rightarrow> CloudFrontWebDistribution \<Rightarrow> ARecord \<times> Children" where
  "createARecord this zone' domainName' distribution' =
     (let r = \<lparr>recordType = A,
               target = fromAlias (CloudFrontTarget distribution'),
               recordName = domainName',
               ttl = Duration_minutes 1,
               zone = zone'\<rparr>
      in (r, this @ [(lit ''DnsARecord'', RARecord r)]))"

text \<open>
  The constructor. A default of the destructuring applies when the property is
  \<^verbatim>\<open>undefined\<close> and only then; \<^verbatim>\<open>if (websiteDistPath)\<close> is a test of truthiness, which
  \<^verbatim>\<open>undefined\<close> and the empty string both fail.
\<close>

definition new_StaticWebsite :: "Scope \<Rightarrow> jsstring \<Rightarrow> StaticWebsiteProps \<Rightarrow> StaticWebsite" where
  "new_StaticWebsite scope id' props =
     (let websiteDistPath' = websiteDistPath props;
          domainName' = domainName props;
          bucketName' = (case bucketName props of
                           None \<Rightarrow> lit ''website.'' @ domainName'
                         | Some b \<Rightarrow> b);
          indexDocument' = (case indexDocument props of
                              None \<Rightarrow> lit ''index.html''
                            | Some d \<Rightarrow> d);
          webACLId' = webACLId props;
          (bucket', this1) = createBucket [] indexDocument' bucketName';
          (bucketDeployment', this2) =
            (case websiteDistPath' of
               None \<Rightarrow> (None, this1)
             | Some p \<Rightarrow>
                 if p = [] then (None, this1)
                 else (let (d, t) = createBucketDeployment this1 p bucket' in (Some d, t)));
          (hostedZone', this3) = lookupHostedZone this2 domainName';
          (certificate, this4) = createCertificate this3 domainName' hostedZone';
          (oai, this5, bucketNode) = createOriginAccessIdentity this4 [] bucket';
          (distribution', this6) =
            createCloudFrontWebDistribution this5 bucket' oai (certificateArn certificate)
              domainName' indexDocument' webACLId';
          (dnsRecord', this7) = createARecord this6 hostedZone' domainName' distribution'
      in \<lparr>bucket = bucket',
          bucketDeployment = bucketDeployment',
          distribution = distribution',
          dnsRecord = dnsRecord',
          node_scope = scope,
          node_id = id',
          node_children = this7,
          bucket_children = bucketNode\<rparr>)"


section \<open>Observations used by the properties\<close>

text \<open>
  The substring after the first full stop, and the part before it, as the specification
  words the hosted-zone derivation ("removing the leftmost label").
\<close>

definition substringAfterFirstDot :: "jsstring \<Rightarrow> jsstring" where
  "substringAfterFirstDot s = drop 1 (dropWhile (\<lambda>c. c \<noteq> FULL_STOP) s)"

definition beforeFirstDot :: "jsstring \<Rightarrow> jsstring" where
  "beforeFirstDot s = takeWhile (\<lambda>c. c \<noteq> FULL_STOP) s"




fun isBucketDeployment :: "Resource \<Rightarrow> bool" where
  "isBucketDeployment (RBucketDeployment d) = True"
| "isBucketDeployment r = False"

text \<open>The inputs of the repository's tests.\<close>

definition testStack :: Scope where
  "testStack = \<lparr>account = lit ''123123123'', region = lit ''eu-west-1''\<rparr>"

definition testProps :: StaticWebsiteProps where
  "testProps =
     \<lparr>domainName = lit ''foo.bar.dk'', websiteDistPath = None, indexDocument = None,
      bucketName = None, webACLId = None\<rparr>"

section \<open>The regular expression\<close>

lemma lazyAnyThenDot_no_dot: "FULL_STOP \<notin> set s \<Longrightarrow> lazyAnyThenDot s = None"
  by (induction s) auto

lemma regexMatchAt_no_dot: "FULL_STOP \<notin> set s \<Longrightarrow> regexMatchAt s = None"
  by (simp add: regexMatchAt_def lazyAnyThenDot_no_dot)

lemma replaceWithGroup1_no_dot: "FULL_STOP \<notin> set s \<Longrightarrow> replaceWithGroup1 s = s"
proof (induction s)
  case Nil
  show ?case by (simp add: regexMatchAt_def)
next
  case (Cons c cs)
  from Cons.prems have "regexMatchAt (c # cs) = None"
    by (rule regexMatchAt_no_dot)
  moreover from Cons have "replaceWithGroup1 cs = cs"
    by simp
  ultimately show ?case by simp
qed

lemma replaceWithGroup1_match: "lazyAnyThenDot s = Some r \<Longrightarrow> replaceWithGroup1 s = r"
  by (cases s) (auto simp: regexMatchAt_def greedyAny_def)

lemma lazyAnyThenDot_first_dot:
  "FULL_STOP \<in> set s \<Longrightarrow> list_all (\<lambda>c. \<not> isLineTerminator c) (beforeFirstDot s) \<Longrightarrow>
   lazyAnyThenDot s = Some (substringAfterFirstDot s)"
  by (induction s)
    (auto simp: beforeFirstDot_def substringAfterFirstDot_def split: if_splits)

lemma hostedZoneDomainName_no_dot:
  "FULL_STOP \<notin> set s \<Longrightarrow> hostedZoneDomainName s = s"
  by (simp add: hostedZoneDomainName_def replaceWithGroup1_no_dot)

lemma hostedZoneDomainName_first_dot:
  "FULL_STOP \<in> set s \<Longrightarrow> list_all (\<lambda>c. \<not> isLineTerminator c) (beforeFirstDot s) \<Longrightarrow>
   hostedZoneDomainName s = substringAfterFirstDot s"
  by (simp add: hostedZoneDomainName_def replaceWithGroup1_match lazyAnyThenDot_first_dot)

text \<open>
  In general the match starts after the last line terminator that precedes the first
  full stop: what stands before that point is kept.
\<close>

lemma lazyAnyThenDot_line_terminator:
  "FULL_STOP \<notin> set pre \<Longrightarrow> isLineTerminator t \<Longrightarrow> lazyAnyThenDot (pre @ t # s) = None"
  by (induction pre) (auto simp: FULL_STOP_def isLineTerminator_def)

lemma replaceWithGroup1_line_terminator:
  "FULL_STOP \<notin> set pre \<Longrightarrow> isLineTerminator t \<Longrightarrow>
   replaceWithGroup1 (pre @ t # s) = pre @ t # replaceWithGroup1 s"
proof (induction pre)
  case Nil
  then have "lazyAnyThenDot (t # s) = None"
    by (auto simp: FULL_STOP_def isLineTerminator_def)
  then show ?case by (simp add: regexMatchAt_def)
next
  case (Cons c pre)
  then have "lazyAnyThenDot ((c # pre) @ t # s) = None"
    by (intro lazyAnyThenDot_line_terminator)
  with Cons show ?case by (simp add: regexMatchAt_def)
qed

section \<open>What the constructor builds\<close>

lemmas method_defs =
  new_StaticWebsite_def createBucket_def createBucketDeployment_def lookupHostedZone_def
  createCertificate_def createOriginAccessIdentity_def createCloudFrontWebDistribution_def
  createARecord_def Let_def

lemma bucket_new:
  "bucket (new_StaticWebsite sc i p) =
     \<lparr>websiteIndexDocument = (case indexDocument p of None \<Rightarrow> lit ''index.html'' | Some d \<Rightarrow> d),
      bkt_bucketName = (case bucketName p of None \<Rightarrow> lit ''website.'' @ domainName p | Some b \<Rightarrow> b),
      removalPolicy = DESTROY,
      blockPublicAccess = BLOCK_ALL\<rparr>"
  by (simp add: method_defs split: option.split prod.split)

lemma bucketDeployment_new:
  "bucketDeployment (new_StaticWebsite sc i p) =
     (case websiteDistPath p of
        None \<Rightarrow> None
      | Some w \<Rightarrow>
          if w = [] then None
          else Some \<lparr>sources = [Source_asset w],
                     destinationBucket = bucket (new_StaticWebsite sc i p),
                     cacheControl = [noCache]\<rparr>)"
  by (simp add: method_defs split: option.split prod.split)

lemma certificate_new:
  "acmCertRef (aliasConfiguration (distribution (new_StaticWebsite sc i p))) =
     certificateArn
       \<lparr>cert_domainName = domainName p,
        hostedZone = fst (lookupHostedZone this (domainName p)),
        cert_region = lit ''us-east-1''\<rparr>"
  by (simp add: method_defs split: option.split prod.split)

lemma errorConfigurations_new:
  "errorConfigurations (distribution (new_StaticWebsite sc i p)) =
     [\<lparr>errorCode = 404, errorCachingMinTtl = 300, responseCode = 200,
       responsePagePath =
         lit ''/'' @ (case indexDocument p of None \<Rightarrow> lit ''index.html'' | Some d \<Rightarrow> d)\<rparr>]"
  by (simp add: method_defs split: option.split prod.split)

lemma dnsRecord_new:
  "dnsRecord (new_StaticWebsite sc i p) =
     \<lparr>recordType = A,
      target = fromAlias (CloudFrontTarget (distribution (new_StaticWebsite sc i p))),
      recordName = domainName p,
      ttl = Duration_minutes 1,
      zone = fst (lookupHostedZone this (domainName p))\<rparr>"
  by (simp add: method_defs split: option.split prod.split)

lemma node_children_new:
  "node_children (new_StaticWebsite sc i p) =
     (lit ''S3Bucket'', RBucket (bucket (new_StaticWebsite sc i p))) #
     (case bucketDeployment (new_StaticWebsite sc i p) of
        None \<Rightarrow> []
      | Some d \<Rightarrow> [(lit ''BucketDeployment'', RBucketDeployment d)]) @
     [(lit ''HostedZone'', RHostedZone (zone (dnsRecord (new_StaticWebsite sc i p)))),
      (lit ''SslCertificate'',
         RCertificate
           \<lparr>cert_domainName = domainName p,
            hostedZone = zone (dnsRecord (new_StaticWebsite sc i p)),
            cert_region = lit ''us-east-1''\<rparr>),
      (lit ''Oai'',
         ROriginAccessIdentity
           \<lparr>comment =
              [Literal (lit ''OAI for ''), Token_bucketName (bucket (new_StaticWebsite sc i p))]\<rparr>),
      (lit ''CloudfrontDistribution'', RDistribution (distribution (new_StaticWebsite sc i p))),
      (lit ''DnsARecord'', RARecord (dnsRecord (new_StaticWebsite sc i p)))]"
  by (simp add: method_defs split: option.split prod.split)



lemma fst_lookupHostedZone:
  "fst (lookupHostedZone this d) =
     HostedZone_fromLookup \<lparr>hz_domainName = hostedZoneDomainName d\<rparr>"
  by (simp add: lookupHostedZone_def Let_def)


section \<open>The hosted-zone lookup\<close>

text \<open>
  C1 (as amended). For every domain name that contains a full stop and has no line
  terminator (LF, CR, U+2028, U+2029) before its first full stop, the hosted-zone lookup
  queries the substring after the first full stop, that is, the name without its leftmost
  label; the zone of the constructed DNS record is that lookup.
\<close>

theorem C1_lookupHostedZone_strips_leftmost_label:
  assumes "FULL_STOP \<in> set d"
    and "list_all (\<lambda>c. \<not> isLineTerminator c) (beforeFirstDot d)"
  shows "fst (lookupHostedZone this d) =
           HostedZone_fromLookup \<lparr>hz_domainName = substringAfterFirstDot d\<rparr>
         \<and> zone (dnsRecord (new_StaticWebsite sc i (p\<lparr>domainName := d\<rparr>))) =
           HostedZone_fromLookup \<lparr>hz_domainName = substringAfterFirstDot d\<rparr>"
proof -
  from assms have "hostedZoneDomainName d = substringAfterFirstDot d"
    by (rule hostedZoneDomainName_first_dot)
  then have "fst (lookupHostedZone t d) =
      HostedZone_fromLookup \<lparr>hz_domainName = substringAfterFirstDot d\<rparr>" for t
    by (simp add: fst_lookupHostedZone)
  then show ?thesis
    by (simp add: dnsRecord_new [where this = this])
qed

theorem C1_lookupHostedZone_strips_leftmost_label_witness:
  "FULL_STOP \<in> set (lit ''foo.bar.dk'')
   \<and> list_all (\<lambda>c. \<not> isLineTerminator c) (beforeFirstDot (lit ''foo.bar.dk''))
   \<and> fst (lookupHostedZone [] (lit ''foo.bar.dk'')) =
       HostedZone_fromLookup \<lparr>hz_domainName = lit ''bar.dk''\<rparr>
   \<and> zone (dnsRecord (new_StaticWebsite testStack (lit ''test'') testProps)) =
       HostedZone_fromLookup \<lparr>hz_domainName = lit ''bar.dk''\<rparr>"
proof -
  have dot: "FULL_STOP \<in> set (lit ''foo.bar.dk'')"
    by (simp add: lit_def FULL_STOP_def)
  have line: "list_all (\<lambda>c. \<not> isLineTerminator c) (beforeFirstDot (lit ''foo.bar.dk''))"
    by (simp add: beforeFirstDot_def lit_def FULL_STOP_def isLineTerminator_def)
  have rest: "substringAfterFirstDot (lit ''foo.bar.dk'') = lit ''bar.dk''"
    by (simp add: substringAfterFirstDot_def lit_def FULL_STOP_def)
  have props: "testProps\<lparr>domainName := lit ''foo.bar.dk''\<rparr> = testProps"
    by (simp add: testProps_def)
  from C1_lookupHostedZone_strips_leftmost_label
    [OF dot line, of "[]" testStack "lit ''test''" testProps]
  show ?thesis
    using dot line by (simp only: rest props simp_thms)
qed

text \<open>
  C1 as the specification states it fails when a line terminator precedes the first full
  stop: \<open>.\<close> does not match it, the match starts after it, and the code units before
  are kept. For a line feed followed by \<open>foo.bar.dk\<close> the query is the line feed
  followed by \<open>bar.dk\<close>, not \<open>bar.dk\<close>.
\<close>

theorem C1_counterexample:
  "FULL_STOP \<in> set (0x000A # lit ''foo.bar.dk'')
   \<and> fst (lookupHostedZone [] (0x000A # lit ''foo.bar.dk'')) =
       HostedZone_fromLookup \<lparr>hz_domainName = 0x000A # lit ''bar.dk''\<rparr>
   \<and> substringAfterFirstDot (0x000A # lit ''foo.bar.dk'') = lit ''bar.dk''
   \<and> fst (lookupHostedZone [] (0x000A # lit ''foo.bar.dk'')) \<noteq>
       HostedZone_fromLookup
         \<lparr>hz_domainName = substringAfterFirstDot (0x000A # lit ''foo.bar.dk'')\<rparr>"
  by (simp add: fst_lookupHostedZone hostedZoneDomainName_def regexMatchAt_def
      greedyAny_def substringAfterFirstDot_def lit_def FULL_STOP_def isLineTerminator_def)

text \<open>
  C9. For every domain name without a full stop the pattern does not match, and the
  hosted-zone lookup queries the domain name unchanged.
\<close>

theorem C9_lookupHostedZone_without_dot:
  assumes "FULL_STOP \<notin> set d"
  shows "fst (lookupHostedZone this d) = HostedZone_fromLookup \<lparr>hz_domainName = d\<rparr>
         \<and> zone (dnsRecord (new_StaticWebsite sc i (p\<lparr>domainName := d\<rparr>))) =
           HostedZone_fromLookup \<lparr>hz_domainName = d\<rparr>"
proof -
  from assms have "hostedZoneDomainName d = d"
    by (rule hostedZoneDomainName_no_dot)
  then have "fst (lookupHostedZone t d) = HostedZone_fromLookup \<lparr>hz_domainName = d\<rparr>" for t
    by (simp add: fst_lookupHostedZone)
  then show ?thesis
    by (simp add: dnsRecord_new [where this = this])
qed

theorem C9_lookupHostedZone_without_dot_witness:
  "FULL_STOP \<notin> set (lit ''localhost'')
   \<and> fst (lookupHostedZone [] (lit ''localhost'')) =
       HostedZone_fromLookup \<lparr>hz_domainName = lit ''localhost''\<rparr>
   \<and> zone (dnsRecord (new_StaticWebsite testStack (lit ''test'')
         (testProps\<lparr>domainName := lit ''localhost''\<rparr>))) =
       HostedZone_fromLookup \<lparr>hz_domainName = lit ''localhost''\<rparr>"
proof -
  have nodot: "FULL_STOP \<notin> set (lit ''localhost'')"
    by (simp add: lit_def FULL_STOP_def)
  from C9_lookupHostedZone_without_dot [OF nodot, of "[]" testStack "lit ''test''" testProps]
  show ?thesis
    using nodot by (simp only: simp_thms)
qed

section \<open>The bucket\<close>

text \<open>
  C2. When \<open>bucketName\<close> is omitted the bucket descriptor is named \<open>website.\<close> followed
  by the domain name; when it is supplied, the bucket descriptor has the supplied name.
\<close>

theorem C2_bucket_name:
  "bkt_bucketName (bucket (new_StaticWebsite sc i (p\<lparr>bucketName := None\<rparr>))) =
     lit ''website.'' @ domainName p
   \<and> bkt_bucketName (bucket (new_StaticWebsite sc i (p\<lparr>bucketName := Some b\<rparr>))) = b"
  by (simp add: bucket_new)

theorem C2_bucket_name_witness:
  "bkt_bucketName (bucket (new_StaticWebsite testStack (lit ''test'') testProps)) =
     lit ''website.foo.bar.dk''
   \<and> bkt_bucketName (bucket (new_StaticWebsite testStack (lit ''test'')
        (testProps\<lparr>bucketName := Some (lit ''assets'')\<rparr>))) = lit ''assets''"
proof -
  have props: "testProps\<lparr>bucketName := None\<rparr> = testProps"
    by (simp add: testProps_def)
  have name: "lit ''website.'' @ domainName testProps = lit ''website.foo.bar.dk''"
    by (simp add: testProps_def lit_def)
  from C2_bucket_name [of testStack "lit ''test''" testProps "lit ''assets''"]
  show ?thesis
    by (simp only: props name)
qed

text \<open>
  C3. Whatever the configuration, the bucket descriptor blocks public access fully: all
  four block-public-access settings are on.
\<close>

theorem C3_bucket_blocks_public_access:
  "blockPublicAccess (bucket (new_StaticWebsite sc i p)) =
     \<lparr>blockPublicAcls = True, blockPublicPolicy = True,
      ignorePublicAcls = True, restrictPublicBuckets = True\<rparr>"
  by (simp add: bucket_new BLOCK_ALL_def)

theorem C3_bucket_blocks_public_access_witness:
  "blockPublicAcls (blockPublicAccess (bucket (new_StaticWebsite testStack (lit ''test'') testProps)))
   \<and> blockPublicPolicy (blockPublicAccess (bucket (new_StaticWebsite testStack (lit ''test'') testProps)))
   \<and> ignorePublicAcls (blockPublicAccess (bucket (new_StaticWebsite testStack (lit ''test'') testProps)))
   \<and> restrictPublicBuckets (blockPublicAccess (bucket (new_StaticWebsite testStack (lit ''test'') testProps)))"
  using C3_bucket_blocks_public_access [of testStack "lit ''test''" testProps]
  by simp


section \<open>The content upload\<close>

text \<open>
  C6 (as amended). When \<open>websiteDistPath\<close> is supplied and is not the empty string, the
  construct has a bucket deployment whose only source is the asset at that path, whose
  destination is the created bucket and whose cache control is no-cache. When it is
  omitted there is no bucket deployment: the field is absent and no deployment is
  registered under the construct.
\<close>

theorem C6_bucket_deployment:
  assumes "w \<noteq> []"
  shows "bucketDeployment (new_StaticWebsite sc i (p\<lparr>websiteDistPath := Some w\<rparr>)) =
           Some \<lparr>sources = [Source_asset w],
                 destinationBucket =
                   bucket (new_StaticWebsite sc i (p\<lparr>websiteDistPath := Some w\<rparr>)),
                 cacheControl = [noCache]\<rparr>
         \<and> bucketDeployment (new_StaticWebsite sc i (p\<lparr>websiteDistPath := None\<rparr>)) = None
         \<and> filter (\<lambda>(n, r). isBucketDeployment r)
             (node_children (new_StaticWebsite sc i (p\<lparr>websiteDistPath := None\<rparr>))) = []"
  using assms by (simp add: bucketDeployment_new node_children_new)

theorem C6_bucket_deployment_witness:
  "lit ''./dist'' \<noteq> []
   \<and> bucketDeployment (new_StaticWebsite testStack (lit ''test'')
        (testProps\<lparr>websiteDistPath := Some (lit ''./dist'')\<rparr>)) =
       Some \<lparr>sources = [Source_asset (lit ''./dist'')],
             destinationBucket =
               bucket (new_StaticWebsite testStack (lit ''test'')
                 (testProps\<lparr>websiteDistPath := Some (lit ''./dist'')\<rparr>)),
             cacheControl = [noCache]\<rparr>
   \<and> bucketDeployment (new_StaticWebsite testStack (lit ''test'') testProps) = None"
proof -
  have path: "lit ''./dist'' \<noteq> []"
    by (simp add: lit_def)
  have props: "testProps\<lparr>websiteDistPath := None\<rparr> = testProps"
    by (simp add: testProps_def)
  from C6_bucket_deployment [OF path, of testStack "lit ''test''" testProps]
  show ?thesis
    using path by (simp only: props simp_thms)
qed

text \<open>
  C6 as the specification states it fails for a path that is supplied as the empty
  string: the path is present in the configuration, and no bucket deployment is made.
\<close>

theorem C6_counterexample:
  "websiteDistPath (testProps\<lparr>websiteDistPath := Some []\<rparr>) \<noteq> None
   \<and> bucketDeployment (new_StaticWebsite testStack (lit ''test'')
        (testProps\<lparr>websiteDistPath := Some []\<rparr>)) = None"
  by (simp add: bucketDeployment_new)

text \<open>
  C10. A \<open>websiteDistPath\<close> supplied as the empty string makes no bucket deployment, and
  the whole construct is the one built when the path is omitted.
\<close>

theorem C10_empty_path_is_no_path:
  "bucketDeployment (new_StaticWebsite sc i (p\<lparr>websiteDistPath := Some []\<rparr>)) = None
   \<and> new_StaticWebsite sc i (p\<lparr>websiteDistPath := Some []\<rparr>) =
     new_StaticWebsite sc i (p\<lparr>websiteDistPath := None\<rparr>)"
  by (simp add: method_defs split: option.split prod.split)

theorem C10_empty_path_is_no_path_witness:
  "bucketDeployment (new_StaticWebsite testStack (lit ''test'')
      (testProps\<lparr>websiteDistPath := Some []\<rparr>)) = None
   \<and> new_StaticWebsite testStack (lit ''test'') (testProps\<lparr>websiteDistPath := Some []\<rparr>) =
     new_StaticWebsite testStack (lit ''test'') testProps"
proof -
  have props: "testProps\<lparr>websiteDistPath := None\<rparr> = testProps"
    by (simp add: testProps_def)
  from C10_empty_path_is_no_path [of testStack "lit ''test''" testProps]
  show ?thesis
    unfolding props .
qed

section \<open>The certificate\<close>

text \<open>
  C7. Whatever the configuration and whatever the region of the enclosing stack, the
  certificate that the distribution refers to is requested for the input domain name
  itself, is validated against the hosted zone that the lookup returned (the zone of the
  DNS record), is issued in \<open>us-east-1\<close>, and is registered under the construct.
\<close>

theorem C7_certificate:
  "acmCertRef (aliasConfiguration
       (distribution (new_StaticWebsite (sc\<lparr>region := r\<rparr>) i p))) =
     certificateArn
       \<lparr>cert_domainName = domainName p,
        hostedZone = fst (lookupHostedZone this (domainName p)),
        cert_region = lit ''us-east-1''\<rparr>
   \<and> zone (dnsRecord (new_StaticWebsite (sc\<lparr>region := r\<rparr>) i p)) =
     fst (lookupHostedZone this (domainName p))
   \<and> (lit ''SslCertificate'',
        RCertificate
          \<lparr>cert_domainName = domainName p,
           hostedZone = fst (lookupHostedZone this (domainName p)),
           cert_region = lit ''us-east-1''\<rparr>)
     \<in> set (node_children (new_StaticWebsite (sc\<lparr>region := r\<rparr>) i p))"
  by (simp add: certificate_new [where this = this] dnsRecord_new [where this = this]
      node_children_new)

theorem C7_certificate_witness:
  "acmCertRef (aliasConfiguration
       (distribution (new_StaticWebsite testStack (lit ''test'') testProps))) =
     certificateArn
       \<lparr>cert_domainName = lit ''foo.bar.dk'',
        hostedZone = HostedZone_fromLookup \<lparr>hz_domainName = lit ''bar.dk''\<rparr>,
        cert_region = lit ''us-east-1''\<rparr>
   \<and> region testStack = lit ''eu-west-1''"
proof -
  have stack: "testStack\<lparr>region := lit ''eu-west-1''\<rparr> = testStack"
    by (simp add: testStack_def)
  have name: "domainName testProps = lit ''foo.bar.dk''"
    by (simp add: testProps_def)
  have query: "fst (lookupHostedZone [] (lit ''foo.bar.dk'')) =
      HostedZone_fromLookup \<lparr>hz_domainName = lit ''bar.dk''\<rparr>"
    by (simp add: fst_lookupHostedZone hostedZoneDomainName_def regexMatchAt_def
        greedyAny_def lit_def FULL_STOP_def isLineTerminator_def)
  have reg: "region testStack = lit ''eu-west-1''"
    by (simp add: testStack_def)
  from C7_certificate [where sc = testStack and r = "lit ''eu-west-1''" and i = "lit ''test''"
      and p = testProps and this = "[]"]
  show ?thesis
    using reg by (simp only: stack name query simp_thms)
qed


section \<open>The distribution and the DNS record\<close>

text \<open>
  C4. The distribution descriptor has one custom error mapping and no other: error code
  404 is answered with response code 200 and the page \<open>/\<close> followed by the effective index
  document (\<open>index.html\<close> when none is configured), cached for at least 300 seconds.
\<close>

theorem C4_error_mapping:
  "errorConfigurations (distribution (new_StaticWebsite sc i (p\<lparr>indexDocument := None\<rparr>))) =
     [\<lparr>errorCode = 404, errorCachingMinTtl = 300, responseCode = 200,
       responsePagePath = lit ''/index.html''\<rparr>]
   \<and> errorConfigurations (distribution (new_StaticWebsite sc i (p\<lparr>indexDocument := Some d\<rparr>))) =
     [\<lparr>errorCode = 404, errorCachingMinTtl = 300, responseCode = 200,
       responsePagePath = lit ''/'' @ d\<rparr>]"
  by (simp add: errorConfigurations_new) (simp add: lit_def)

theorem C4_error_mapping_witness:
  "errorConfigurations (distribution (new_StaticWebsite testStack (lit ''test'') testProps)) =
     [\<lparr>errorCode = 404, errorCachingMinTtl = 300, responseCode = 200,
       responsePagePath = lit ''/index.html''\<rparr>]
   \<and> errorConfigurations (distribution (new_StaticWebsite testStack (lit ''test'')
        (testProps\<lparr>indexDocument := Some (lit ''app.html'')\<rparr>))) =
     [\<lparr>errorCode = 404, errorCachingMinTtl = 300, responseCode = 200,
       responsePagePath = lit ''/app.html''\<rparr>]"
proof -
  have props: "testProps\<lparr>indexDocument := None\<rparr> = testProps"
    by (simp add: testProps_def)
  have path: "lit ''/'' @ lit ''app.html'' = lit ''/app.html''"
    by (simp add: lit_def)
  from C4_error_mapping [of testStack "lit ''test''" testProps "lit ''app.html''"]
  show ?thesis
    unfolding props path .
qed

text \<open>
  C5. The DNS record descriptor is named by the input domain name, is of type A, has as
  its target the alias of the created distribution, and has a time to live of one minute.
\<close>

theorem C5_dns_record:
  "recordName (dnsRecord (new_StaticWebsite sc i p)) = domainName p
   \<and> recordType (dnsRecord (new_StaticWebsite sc i p)) = A
   \<and> target (dnsRecord (new_StaticWebsite sc i p)) =
       fromAlias (CloudFrontTarget (distribution (new_StaticWebsite sc i p)))
   \<and> ttl (dnsRecord (new_StaticWebsite sc i p)) = \<lparr>amount = 1, timeUnit = Minutes\<rparr>"
  by (simp add: dnsRecord_new [where this = "[]"] Duration_minutes_def)

theorem C5_dns_record_witness:
  "recordName (dnsRecord (new_StaticWebsite testStack (lit ''test'') testProps)) =
     lit ''foo.bar.dk''
   \<and> recordType (dnsRecord (new_StaticWebsite testStack (lit ''test'') testProps)) = A
   \<and> ttl (dnsRecord (new_StaticWebsite testStack (lit ''test'') testProps)) =
       \<lparr>amount = 1, timeUnit = Minutes\<rparr>"
proof -
  have name: "domainName testProps = lit ''foo.bar.dk''"
    by (simp add: testProps_def)
  from C5_dns_record [of testStack "lit ''test''" testProps]
  show ?thesis
    by (simp only: name simp_thms)
qed

section \<open>Teardown\<close>



end
